theory Spec2Isabelle
  imports Complex_Main "HOL-Library.AList"
begin

section \<open>Python strings\<close>

text \<open>
  A Python \<open>str\<close> is a sequence of Unicode code points; a code point is modelled as
  the integer \<open>ord\<close> gives and a string as a list of them, so that the private-use glyphs the
  parsers look for (U+F147, U+F007, the range U+F000-U+F8FF) are single characters, as
  they are in Python. ASCII literals are written with \<open>u\<close>.

  The whitespace class is the one of \<open>str.isspace\<close>, \<open>str.strip\<close>, \<open>str.split\<close> and of
  \<open>\s\<close> in a \<open>str\<close> pattern, listed in full. The digit and word classes and the case
  mappings are those of the ASCII range: outside it a code point counts as neither
  digit nor letter and is its own lower and upper case (Python's Unicode database is
  not part of the repository).
\<close>

type_synonym cp = int

type_synonym ustr = "cp list"

definition u :: "string \<Rightarrow> ustr" where
  "u s = map of_char s"

definition is_space :: "cp \<Rightarrow> bool" where
  "is_space c = ((9 \<le> c \<and> c \<le> 13) \<or> (28 \<le> c \<and> c \<le> 32) \<or> c = 133 \<or> c = 160 \<or>
     c = 5760 \<or> (8192 \<le> c \<and> c \<le> 8202) \<or> c = 8232 \<or> c = 8233 \<or> c = 8239 \<or>
     c = 8287 \<or> c = 12288)"

definition is_digit :: "cp \<Rightarrow> bool" where
  "is_digit c = (48 \<le> c \<and> c \<le> 57)"

definition is_upper :: "cp \<Rightarrow> bool" where
  "is_upper c = (65 \<le> c \<and> c \<le> 90)"

definition is_lower :: "cp \<Rightarrow> bool" where
  "is_lower c = (97 \<le> c \<and> c \<le> 122)"

definition is_alpha :: "cp \<Rightarrow> bool" where
  "is_alpha c = (is_upper c \<or> is_lower c)"

definition is_alnum :: "cp \<Rightarrow> bool" where
  "is_alnum c = (is_alpha c \<or> is_digit c)"

text \<open>\<open>\w\<close>: letters, digits and the underscore.\<close>

definition is_word :: "cp \<Rightarrow> bool" where
  "is_word c = (is_alnum c \<or> c = 95)"

definition lower_cp :: "cp \<Rightarrow> cp" where
  "lower_cp c = (if is_upper c then c + 32 else c)"

definition upper_cp :: "cp \<Rightarrow> cp" where
  "upper_cp c = (if is_lower c then c - 32 else c)"

definition lower :: "ustr \<Rightarrow> ustr" where
  "lower s = map lower_cp s"

definition upper :: "ustr \<Rightarrow> ustr" where
  "upper s = map upper_cp s"

text \<open>\<open>s.strip()\<close>: whitespace removed at both ends.\<close>

definition lstrip :: "ustr \<Rightarrow> ustr" where
  "lstrip s = dropWhile is_space s"

definition strip :: "ustr \<Rightarrow> ustr" where
  "strip s = rev (dropWhile is_space (rev (dropWhile is_space s)))"

text \<open>\<open>s.split('\n')\<close>: never empty, one more piece than there are newlines.\<close>

fun split_nl :: "ustr \<Rightarrow> ustr list" where
  "split_nl [] = [[]]"
| "split_nl (c # cs) =
     (if c = 10 then [] # split_nl cs
      else (case split_nl cs of [] \<Rightarrow> [[c]] | l # ls \<Rightarrow> (c # l) # ls))"

text \<open>\<open>sep.join(xs)\<close>.\<close>

fun join :: "ustr \<Rightarrow> ustr list \<Rightarrow> ustr" where
  "join sep [] = []"
| "join sep [x] = x"
| "join sep (x # y # ys) = x @ sep @ join sep (y # ys)"

text \<open>\<open>s.split()\<close>: the maximal runs of non-whitespace.\<close>

fun split_ws_acc :: "ustr \<Rightarrow> ustr \<Rightarrow> ustr list" where
  "split_ws_acc w [] = (if w = [] then [] else [rev w])"
| "split_ws_acc w (c # cs) =
     (if is_space c then (if w = [] then split_ws_acc [] cs else rev w # split_ws_acc [] cs)
      else split_ws_acc (c # w) cs)"

definition split_ws :: "ustr \<Rightarrow> ustr list" where
  "split_ws s = split_ws_acc [] s"

text \<open>\<open>p in s\<close> for strings: \<open>p\<close> occurs in \<open>s\<close> as a contiguous piece.\<close>

fun starts_with :: "ustr \<Rightarrow> ustr \<Rightarrow> bool" where
  "starts_with [] s = True"
| "starts_with (p # ps) [] = False"
| "starts_with (p # ps) (c # cs) = (p = c \<and> starts_with ps cs)"

fun contains :: "ustr \<Rightarrow> ustr \<Rightarrow> bool" where
  "contains p [] = (p = [])"
| "contains p (c # cs) = (starts_with p (c # cs) \<or> contains p cs)"

text \<open>\<open>s.replace(old, new)\<close> for a non-empty \<open>old\<close>: left to right, without overlap.\<close>

fun replace :: "ustr \<Rightarrow> ustr \<Rightarrow> ustr \<Rightarrow> ustr" where
  "replace old new [] = []"
| "replace old new (c # cs) =
     (if old \<noteq> [] \<and> starts_with old (c # cs)
      then new @ replace old new (drop (length old) (c # cs))
      else c # replace old new cs)"


section \<open>Regular expressions\<close>

text \<open>
  The patterns of the source are kept as data and run by one backtracking matcher with
  the priorities of Python's \<open>re\<close>: the parts of a sequence left to right, the branches
  of an alternation in order, a greedy repetition the longest first, a lazy one the
  shortest first. A matcher state is the text already passed (reversed), the text
  ahead and the groups captured so far; \<open>ms r st\<close> lists every way \<open>r\<close> can match at
  \<open>st\<close>, best first, so that the match Python reports is the head of the list.
\<close>

datatype re =
    Cls "cp \<Rightarrow> bool"
  | Eps
  | Seq re re
  | Alt re re
  | Star re
  | LazyStar re
  | Grp nat re
  | Look re
  | Bol
  | Eol
  | BolM
  | EolM
  | WordB

type_synonym mstate = "ustr \<times> ustr \<times> (nat \<times> ustr) list"

definition ahead :: "mstate \<Rightarrow> ustr" where
  "ahead st = fst (snd st)"

definition passed :: "mstate \<Rightarrow> ustr" where
  "passed st = fst st"

definition groups :: "mstate \<Rightarrow> (nat \<times> ustr) list" where
  "groups st = snd (snd st)"

text \<open>
  A repetition tries one more round first (greedy) or last (lazy). A round that
  consumes nothing is not repeated, so the text ahead bounds the number of rounds.
\<close>

primrec star_iter :: "(mstate \<Rightarrow> mstate list) \<Rightarrow> nat \<Rightarrow> mstate \<Rightarrow> mstate list" where
  "star_iter f 0 st = [st]"
| "star_iter f (Suc n) st =
     concat (map (star_iter f n)
       (filter (\<lambda>st'. length (ahead st') < length (ahead st)) (f st))) @ [st]"

primrec lazy_iter :: "(mstate \<Rightarrow> mstate list) \<Rightarrow> nat \<Rightarrow> mstate \<Rightarrow> mstate list" where
  "lazy_iter f 0 st = [st]"
| "lazy_iter f (Suc n) st =
     st # concat (map (lazy_iter f n)
       (filter (\<lambda>st'. length (ahead st') < length (ahead st)) (f st)))"

definition at_word_boundary :: "mstate \<Rightarrow> bool" where
  "at_word_boundary st =
     ((case passed st of [] \<Rightarrow> False | c # _ \<Rightarrow> is_word c) \<noteq>
      (case ahead st of [] \<Rightarrow> False | c # _ \<Rightarrow> is_word c))"

primrec ms :: "re \<Rightarrow> mstate \<Rightarrow> mstate list" where
  "ms (Cls P) st =
     (case ahead st of [] \<Rightarrow> []
      | c # cs \<Rightarrow> if P c then [(c # passed st, cs, groups st)] else [])"
| "ms Eps st = [st]"
| "ms (Seq a b) st = concat (map (ms b) (ms a st))"
| "ms (Alt a b) st = ms a st @ ms b st"
| "ms (Star a) st = star_iter (ms a) (length (ahead st)) st"
| "ms (LazyStar a) st = lazy_iter (ms a) (length (ahead st)) st"
| "ms (Grp i a) st =
     map (\<lambda>st'. (passed st', ahead st',
            (i, take (length (ahead st) - length (ahead st')) (ahead st)) # groups st'))
       (ms a st)"
| "ms (Look a) st = (if ms a st = [] then [] else [st])"
| "ms Bol st = (if passed st = [] then [st] else [])"
| "ms Eol st = (if ahead st = [] \<or> ahead st = [10] then [st] else [])"
| "ms BolM st = (case passed st of [] \<Rightarrow> [st] | c # _ \<Rightarrow> if c = 10 then [st] else [])"
| "ms EolM st = (case ahead st of [] \<Rightarrow> [st] | c # _ \<Rightarrow> if c = 10 then [st] else [])"
| "ms WordB st = (if at_word_boundary st then [st] else [])"

text \<open>\<open>m.group(i)\<close>: the text of the last round of group \<open>i\<close>, \<open>None\<close> if it took no part.\<close>

definition group :: "mstate \<Rightarrow> nat \<Rightarrow> ustr option" where
  "group st i = map_of (groups st) i"

text \<open>\<open>m.group(i)\<close> where the source uses it as a string.\<close>

definition group_str :: "mstate \<Rightarrow> nat \<Rightarrow> ustr" where
  "group_str st i = (case group st i of None \<Rightarrow> [] | Some g \<Rightarrow> g)"

text \<open>\<open>re.match\<close>: a match at the start of the text.\<close>

definition re_match :: "re \<Rightarrow> ustr \<Rightarrow> mstate option" where
  "re_match r s = (case ms r ([], s, []) of [] \<Rightarrow> None | m # _ \<Rightarrow> Some m)"

text \<open>
  \<open>re.search\<close>: the leftmost position with a match, and the best match there. The
  result pairs the text ahead at the start of the match with the final state.
\<close>

fun search_from :: "re \<Rightarrow> ustr \<Rightarrow> ustr \<Rightarrow> (ustr \<times> mstate) option" where
  "search_from r b [] = (case ms r (b, [], []) of [] \<Rightarrow> None | m # _ \<Rightarrow> Some ([], m))"
| "search_from r b (c # cs) =
     (case ms r (b, c # cs, []) of
        [] \<Rightarrow> search_from r (c # b) cs
      | m # _ \<Rightarrow> Some (c # cs, m))"

definition re_search :: "re \<Rightarrow> ustr \<Rightarrow> (ustr \<times> mstate) option" where
  "re_search r s = search_from r [] s"

definition found :: "re \<Rightarrow> ustr \<Rightarrow> bool" where
  "found r s = (re_search r s \<noteq> None)"

text \<open>\<open>m.group()\<close>: the text between the start and the end of the match.\<close>

definition matched :: "ustr \<times> mstate \<Rightarrow> ustr" where
  "matched m = take (length (fst m) - length (ahead (snd m))) (fst m)"

text \<open>
  \<open>re.sub(r, repl, s)\<close>: the matches are replaced left to right without overlap. The
  replacement is a function of the match (its groups); an empty match is replaced and
  the next character copied, as Python does.
\<close>

fun sub_from :: "re \<Rightarrow> (mstate \<Rightarrow> ustr) \<Rightarrow> ustr \<Rightarrow> ustr \<Rightarrow> ustr" where
  "sub_from r repl b [] = (case ms r (b, [], []) of [] \<Rightarrow> [] | m # _ \<Rightarrow> repl m)"
| "sub_from r repl b (c # cs) =
     (case ms r (b, c # cs, []) of
        [] \<Rightarrow> c # sub_from r repl (c # b) cs
      | m # _ \<Rightarrow>
          (if length (ahead m) < length (c # cs)
           then repl m @ sub_from r repl (passed m) (ahead m)
           else repl m @ c # sub_from r repl (c # b) cs))"

definition re_sub :: "re \<Rightarrow> (mstate \<Rightarrow> ustr) \<Rightarrow> ustr \<Rightarrow> ustr" where
  "re_sub r repl s = sub_from r repl [] s"

subsection \<open>Writing patterns\<close>

definition Fail :: re where
  "Fail = Cls (\<lambda>c. False)"

definition Plus :: "re \<Rightarrow> re" where
  "Plus r = Seq r (Star r)"

definition LazyPlus :: "re \<Rightarrow> re" where
  "LazyPlus r = Seq r (LazyStar r)"

definition Opt :: "re \<Rightarrow> re" where
  "Opt r = Alt r Eps"

primrec seqs :: "re list \<Rightarrow> re" where
  "seqs [] = Eps"
| "seqs (r # rs) = Seq r (seqs rs)"

primrec alts :: "re list \<Rightarrow> re" where
  "alts [] = Fail"
| "alts (r # rs) = Alt r (alts rs)"

text \<open>\<open>r{n}\<close>, the greedy \<open>r{0,k}\<close>, \<open>r{m,n}\<close> and \<open>r{m,}\<close>.\<close>

primrec rep :: "nat \<Rightarrow> re \<Rightarrow> re" where
  "rep 0 r = Eps"
| "rep (Suc n) r = Seq r (rep n r)"

primrec rep_upto :: "nat \<Rightarrow> re \<Rightarrow> re" where
  "rep_upto 0 r = Eps"
| "rep_upto (Suc k) r = Alt (Seq r (rep_upto k r)) Eps"

definition rep_range :: "nat \<Rightarrow> nat \<Rightarrow> re \<Rightarrow> re" where
  "rep_range m n r = Seq (rep m r) (rep_upto (n - m) r)"

definition at_least :: "nat \<Rightarrow> re \<Rightarrow> re" where
  "at_least m r = Seq (rep m r) (Star r)"

text \<open>
  Under \<open>re.IGNORECASE\<close> a letter of the pattern matches both its cases and, for
  \<open>i\<close>, \<open>s\<close> and \<open>k\<close>, the four further letters Python's documentation lists:
  U+0130, U+0131, U+017F and U+212A.
\<close>

definition fold_cp :: "cp \<Rightarrow> cp" where
  "fold_cp c =
     (if c = 304 \<or> c = 305 then 105 else if c = 383 then 115 else if c = 8490 then 107
      else lower_cp c)"

definition chr :: "cp \<Rightarrow> re" where
  "chr c = Cls (\<lambda>x. x = c)"

definition ichr :: "cp \<Rightarrow> re" where
  "ichr c = Cls (\<lambda>x. fold_cp x = fold_cp c)"

definition lit :: "string \<Rightarrow> re" where
  "lit s = seqs (map chr (u s))"

definition ilit :: "string \<Rightarrow> re" where
  "ilit s = seqs (map ichr (u s))"

text \<open>A character class \<open>[...]\<close> under \<open>re.IGNORECASE\<close>.\<close>

definition icls :: "(cp \<Rightarrow> bool) \<Rightarrow> re" where
  "icls P = Cls (\<lambda>x. P x \<or> P (fold_cp x) \<or> P (upper_cp (fold_cp x)))"

definition dig :: re where
  "dig = Cls is_digit"

definition wsp :: re where
  "wsp = Cls is_space"

definition wrd :: re where
  "wrd = Cls is_word"

text \<open>\<open>.\<close> (no newline) and \<open>.\<close> under \<open>re.DOTALL\<close>.\<close>

definition dot :: re where
  "dot = Cls (\<lambda>c. c \<noteq> 10)"

definition dot_all :: re where
  "dot_all = Cls (\<lambda>c. True)"


text \<open>A character out of a list, as in \<open>[>|\\-]\<close>.\<close>

definition one_of :: "cp list \<Rightarrow> re" where
  "one_of cs = Cls (\<lambda>c. List.member cs c)"

text \<open>\<open>w\<close> followed by an optional \<open>s\<close>, as in \<open>years?\<close>.\<close>

definition plural :: "string \<Rightarrow> re" where
  "plural w = Seq (lit w) (Opt (chr 115))"

definition iplural :: "string \<Rightarrow> re" where
  "iplural w = Seq (ilit w) (Opt (ichr 115))"

text \<open>\<open>str(n)\<close> for an integer.\<close>

fun str_nat :: "nat \<Rightarrow> ustr" where
  "str_nat n = (if n < 10 then [48 + int n] else str_nat (n div 10) @ [48 + int (n mod 10)])"

definition str_int :: "int \<Rightarrow> ustr" where
  "str_int i = (if i < 0 then 45 # str_nat (nat (- i)) else str_nat (nat i))"

text \<open>
  \<open>int(s)\<close> for a run of digits, and \<open>str(i)\<close> as an f-string does it. Python refuses
  to convert a run of more than 4300 digits, and an integer of more than 4300 digits
  (\<open>sys.get_int_max_str_digits()\<close>), with a \<open>ValueError\<close>, which is the value \<open>None\<close> here.
\<close>

definition int_of_digits :: "ustr \<Rightarrow> int" where
  "int_of_digits s = foldl (\<lambda>n c. 10 * n + (c - 48)) 0 s"

definition py_int :: "ustr \<Rightarrow> int option" where
  "py_int s = (if length s > 4300 then None else Some (int_of_digits s))"

definition py_str :: "int \<Rightarrow> ustr option" where
  "py_str i = (if length (str_nat (nat \<bar>i\<bar>)) > 4300 then None else Some (str_int i))"

section \<open>Python floats\<close>

text \<open>
  A Python \<open>float\<close> is an IEEE 754 binary64 number. It is modelled as the rational it
  denotes: \<open>fl x\<close> is the binary64 number nearest to the rational \<open>x\<close>, ties going to
  the even significand, so that a literal such as \<open>0.4\<close> is \<open>fl (4 / 10)\<close> and the sum of
  two floats is \<open>fadd\<close>, the rounded exact sum. Subnormal numbers are covered; a result
  beyond the largest binary64 number, which no score and no quotient of the parser
  comes near, is not.
\<close>

text \<open>\<open>binary_exponent n x\<close> is the \<open>e\<close> with \<open>2 ^ e \<le> x < 2 ^ (e + 1)\<close>, searched in \<open>n\<close> steps.\<close>

primrec binary_exponent :: "nat \<Rightarrow> rat \<Rightarrow> int" where
  "binary_exponent 0 x = 0"
| "binary_exponent (Suc n) x =
     (if 2 \<le> x then binary_exponent n (x / 2) + 1
      else if x < 1 then binary_exponent n (2 * x) - 1
      else 0)"

definition round_half_even :: "rat \<Rightarrow> int" where
  "round_half_even m =
     (let f = \<lfloor>m\<rfloor>; d = m - of_int f
      in if d < 1 / 2 then f else if 1 / 2 < d then f + 1 else if even f then f else f + 1)"

definition pow2 :: "int \<Rightarrow> rat" where
  "pow2 e = (if 0 \<le> e then 2 ^ nat e else 1 / 2 ^ nat (- e))"

text \<open>Rounding a positive rational, and rounding any rational.\<close>

definition fl_pos :: "rat \<Rightarrow> rat" where
  "fl_pos a =
     (let e = max (binary_exponent 1100 a) (- 1022);
          q = pow2 (e - 52)
      in of_int (round_half_even (a / q)) * q)"

definition fl :: "rat \<Rightarrow> rat" where
  "fl x = (if x = 0 then 0 else if x < 0 then - fl_pos (- x) else fl_pos x)"

definition fadd :: "rat \<Rightarrow> rat \<Rightarrow> rat" where
  "fadd x y = fl (x + y)"

section \<open>The data model of \<open>question_parser.py\<close>\<close>

text \<open>
  \<open>CommunityComment\<close> and \<open>Question\<close> are the source's dataclasses, with its field
  names; the comment's \<open>page_number\<close> and \<open>source\<close> are written \<open>comment_page\<close> and
  \<open>comment_source\<close>, since a field name is one constant. A \<open>dict\<close> from option letter
  to option text is an association list in insertion order with one entry per key. The
  confidence score is a float: the rational value of a binary64 number.
\<close>

record community_comment =
  question_id :: ustr
  username :: ustr
  content :: ustr
  timestamp :: ustr
  vote_count :: int
  vote_type :: ustr
  comment_page :: int
  comment_source :: ustr

record question =
  unique_id :: ustr
  original_number :: ustr
  description :: ustr
  options :: "(ustr \<times> ustr) list"
  community_answer :: ustr
  highly_voted_answer :: ustr
  most_recent_answer :: ustr
  claude_answer :: ustr
  claude_reasoning :: ustr
  latest_date :: ustr
  topic :: ustr
  page_number :: int
  confidence_score :: rat
  source :: ustr
  raw_content :: ustr
  source_pdf_path :: ustr
  introductory_info :: ustr
  has_claude_answer :: bool

text \<open>\<open>CommunityComment()\<close> and \<open>Question()\<close>: every field at its default.\<close>

definition new_comment :: community_comment where
  "new_comment = \<lparr>question_id = [], username = [], content = [], timestamp = [],
     vote_count = 0, vote_type = [], comment_page = 0, comment_source = []\<rparr>"

definition new_question :: question where
  "new_question = \<lparr>unique_id = [], original_number = [], description = [], options = [],
     community_answer = [], highly_voted_answer = [], most_recent_answer = [],
     claude_answer = [], claude_reasoning = [], latest_date = [], topic = [],
     page_number = 0, confidence_score = 0, source = [], raw_content = [],
     source_pdf_path = [], introductory_info = [], has_claude_answer = False\<rparr>"

text \<open>
  The parser object: its configuration (the two values the parser reads), the counter
  behind the fallback identifiers and the comments collected so far.
\<close>

record config =
  minimum_question_length :: int
  minimum_confidence_score :: rat

text \<open>
  \<open>_get_default_config\<close>; it has no \<open>quality_control\<close> section, so the threshold is
  the \<open>0.3\<close> that \<open>parse_questions_from_pages\<close> falls back to.
\<close>

definition get_default_config :: config where
  "get_default_config =
     \<lparr>minimum_question_length = 50, minimum_confidence_score = fl (3 / 10)\<rparr>"

record parser =
  question_counter :: nat
  community_comments :: "community_comment list"

definition new_parser :: parser where
  "new_parser = \<lparr>question_counter = 0, community_comments = []\<rparr>"

section \<open>Community lines\<close>

text \<open>The time units of the timestamp patterns.\<close>

definition units_ymwd :: re where
  "units_ymwd = alts [iplural ''year'', iplural ''month'', iplural ''week'', iplural ''day'']"

definition units_mwd :: re where
  "units_mwd = alts [iplural ''month'', iplural ''week'', iplural ''day'']"

text \<open>\<open>[A-Za-z][A-Za-z0-9_]{2,}\<close> under \<open>re.IGNORECASE\<close>.\<close>

definition iusername :: re where
  "iusername = Seq (icls is_alpha) (at_least 2 (icls is_word))"

definition known_usernames :: "string list" where
  "known_usernames = [''Ahmed_Safwat'', ''SAMBIT'', ''kopper2019'', ''ChinaSailor'',
     ''AzureDP900'', ''minmin2020'', ''megumin'', ''Mahmoud_E'', ''holerina'',
     ''BiddlyBdoyng'', ''nagibator163'', ''Ausias18'', ''lynx256'', ''practicioner'',
     ''gcparchitect007'', ''Kabiliravi'', ''ry9280087'', ''mlantonis'', ''roastc'',
     ''hems4all'', ''AdityaGupta'', ''zzaric'', ''Rightsaidfred'', ''bnlcnd'', ''joe2211'',
     ''PeppaPig'', ''sjmsummer'', ''vincy2202'', ''AniketD'', ''mifrah'', ''JC0926'',
     ''belly265'']"

text \<open>
  \<open>setup_community_patterns\<close>: the list \<open>community_indicators\<close>, in the source's order.
  Every pattern is searched under \<open>re.IGNORECASE\<close>. The glyphs of the sixth pattern are
  U+25B6, U+25BC, U+25BA, U+25C4, U+2B05, U+27A1, U+1F518, U+25A1, U+25A0, U+1F4F7,
  U+1F5BC and U+1F4F8.
\<close>

definition community_indicators :: "re list" where
  "community_indicators =
    [seqs [chr 61767, Star wsp, chr 61447],
     seqs [Bol, Grp 1 (Star wsp), iusername, Plus wsp, Plus dig, Plus wsp,
           Grp 2 units_ymwd, Opt (chr 44), Star wsp,
           Opt (Grp 3 (seqs [Plus dig, Plus wsp, Grp 4 units_mwd])), Plus wsp, ilit ''ago''],
     seqs [Grp 1 (alts [ilit ''Selected Answer'', ilit ''Highly Voted'', ilit ''Most Recent'',
                        ilit ''Community Answer'']), chr 58, Star wsp],
     seqs [ilit ''Highly'', Plus wsp, ilit ''Voted''],
     seqs [ilit ''Most'', Plus wsp, ilit ''Recent''],
     seqs [Bol, Grp 1 (Star wsp),
           one_of [9654, 9660, 9658, 9668, 11013, 10145, 128280, 9633, 9632, 128247,
                   128444, 128248]],
     seqs [Bol, Grp 1 (Star wsp), Grp 2 (alts (map ilit known_usernames))],
     seqs [ilit ''http'', Opt (ichr 115), lit ''://'', Plus (Cls (\<lambda>c. \<not> is_space c))],
     seqs [Bol, Grp 1 (Star wsp), one_of [62, 124, 92, 45], Star wsp],
     seqs [ilit ''upvoted'', Plus wsp, Plus dig, Plus wsp, ilit ''time'', Opt (ichr 115)],
     seqs [ilit ''upvoted'', Plus wsp, Plus dig],
     seqs [Bol, Grp 1 (Star wsp), iusername, Plus wsp,
           Grp 2 (alts [seqs [ilit ''Highly'', Plus wsp, ilit ''Voted''],
                        seqs [ilit ''Most'', Plus wsp, ilit ''Recent'']]), Plus wsp],
     seqs [Bol, Grp 1 (Star wsp), iusername, Plus wsp, Plus dig, Plus wsp,
           Grp 2 units_ymwd, Plus wsp, ilit ''ago'']]"

text \<open>\<open>_is_community_comment\<close>.\<close>

definition is_community_comment :: "ustr \<Rightarrow> bool" where
  "is_community_comment line0 =
     (let line = strip line0 in
      if line = [] then False
      else if List.member line 61767 \<or> List.member line 61447 then True
      else list_ex (\<lambda>pattern. found pattern line) community_indicators)"

text \<open>
  \<open>_extract_community_comment\<close>. The patterns are searched in the line as given, the
  content is the stripped line. The one step of the body that can raise is \<open>int\<close> of
  the vote count; the \<open>except\<close> branch then returns \<open>None\<close>.
\<close>

definition username_timestamp :: re where
  "username_timestamp =
     seqs [Bol, Grp 1 (Star wsp),
           Grp 2 (Seq (Cls is_alpha) (at_least 2 (Cls is_word))), Plus wsp,
           Grp 3 (seqs [Plus dig, Plus wsp,
                        alts [plural ''year'', plural ''month'', plural ''week'', plural ''day''],
                        Opt (chr 44), Star wsp,
                        Opt (seqs [Plus dig, Plus wsp,
                                   alts [plural ''month'', plural ''week'', plural ''day'']]),
                        Plus wsp, lit ''ago''])]"

definition upvoted_times :: re where
  "upvoted_times =
     seqs [ilit ''upvoted'', Plus wsp, Grp 1 (Plus dig), Plus wsp, ilit ''time'',
           Opt (ichr 115)]"

definition extract_community_comment ::
    "ustr \<Rightarrow> ustr \<Rightarrow> int \<Rightarrow> ustr \<Rightarrow> community_comment option" where
  "extract_community_comment line qid page_no source_file =
     (let comment = new_comment\<lparr>question_id := qid, comment_page := page_no,
            comment_source := source_file, content := strip line\<rparr>;
          comment = (case re_search username_timestamp line of
              Some m \<Rightarrow> comment\<lparr>username := group_str (snd m) 2,
                                 timestamp := group_str (snd m) 3\<rparr>
            | None \<Rightarrow> comment);
          comment =
            (if found (ilit ''highly voted'') line
               then comment\<lparr>vote_type := u ''Highly Voted''\<rparr>
             else if found (ilit ''most recent'') line
               then comment\<lparr>vote_type := u ''Most Recent''\<rparr>
             else if found (ilit ''selected answer'') line
               then comment\<lparr>vote_type := u ''Selected Answer''\<rparr>
             else comment)
      in case re_search upvoted_times line of
           Some m \<Rightarrow>
             (case py_int (group_str (snd m) 1) of
                Some n \<Rightarrow> Some (comment\<lparr>vote_count := n\<rparr>)
              | None \<Rightarrow> None)
         | None \<Rightarrow> Some comment)"

text \<open>
  The lines on which \<open>_extract_community_comment\<close> raises and returns \<open>None\<close>: the vote
  count found by \<open>upvoted\s+(\d+)\s+times?\<close> has more than 4300 digits.
\<close>

definition vote_count_too_long :: "ustr \<Rightarrow> bool" where
  "vote_count_too_long line =
     (case re_search upvoted_times line of
        Some m \<Rightarrow> length (group_str (snd m) 1) > 4300
      | None \<Rightarrow> False)"

text \<open>
  \<open>_separate_community_comments\<close>: the loop over the lines, then the join of the lines
  kept.
\<close>

fun separate_lines ::
    "ustr list \<Rightarrow> ustr \<Rightarrow> int \<Rightarrow> ustr \<Rightarrow> ustr list \<times> community_comment list" where
  "separate_lines [] qid page_no source_file = ([], [])"
| "separate_lines (line # ls) qid page_no source_file =
     (let rest = separate_lines ls qid page_no source_file in
      if is_community_comment line then
        (case extract_community_comment line qid page_no source_file of
           Some comment \<Rightarrow> (fst rest, comment # snd rest)
         | None \<Rightarrow> rest)
      else (line # fst rest, snd rest))"

definition separate_community_comments ::
    "ustr \<Rightarrow> ustr \<Rightarrow> int \<Rightarrow> ustr \<Rightarrow> ustr \<times> community_comment list" where
  "separate_community_comments text qid page_no source_file =
     (let r = separate_lines (split_nl text) qid page_no source_file
      in (join [10] (fst r), snd r))"

section \<open>Number, topic and description\<close>

text \<open>\<open>_extract_question_number\<close>: the first pattern found in the block gives the number.\<close>

definition question_number_patterns :: "re list" where
  "question_number_patterns =
    [seqs [ilit ''Question'', Star wsp, chr 35, Grp 1 (Plus dig)],
     seqs [ilit ''Question'', Plus wsp, Grp 1 (Plus dig)],
     seqs [Grp 1 (Plus dig), chr 46, wsp]]"

fun first_group1 :: "re list \<Rightarrow> ustr \<Rightarrow> ustr option" where
  "first_group1 [] s = None"
| "first_group1 (pattern # ps) s =
     (case re_search pattern s of
        Some m \<Rightarrow> Some (group_str (snd m) 1)
      | None \<Rightarrow> first_group1 ps s)"

definition extract_question_number :: "ustr \<Rightarrow> ustr option" where
  "extract_question_number s = first_group1 question_number_patterns s"

text \<open>\<open>_extract_topic\<close>.\<close>

definition gcp_services :: "string list" where
  "gcp_services = [''Compute Engine'', ''Cloud Storage'', ''BigQuery'', ''Cloud SQL'',
     ''Kubernetes'', ''GKE'', ''Cloud Functions'', ''App Engine'', ''Cloud Run'', ''Dataflow'',
     ''Pub/Sub'', ''Firestore'']"

definition extract_topic :: "ustr \<Rightarrow> ustr" where
  "extract_topic s =
     (case re_search (seqs [ilit ''Topic'', Plus wsp, Grp 1 (Plus dig)]) s of
        Some m \<Rightarrow> u ''Topic '' @ group_str (snd m) 1
      | None \<Rightarrow>
          (case filter (\<lambda>service. contains (lower (u service)) (lower s)) gcp_services of
             service # _ \<Rightarrow> u service
           | [] \<Rightarrow> u ''General''))"

text \<open>The patterns of \<open>_extract_question_description\<close>.\<close>

definition header_footer :: re where
  "header_footer =
     alts [ilit ''ExamTopics'',
           seqs [ilit ''Profess'', Star dot, ilit ''onal''],
           seqs [Bol, Plus dig, Star wsp, Eol],
           seqs [ilit ''Page '', Plus dig]]"

definition question_marker :: re where
  "question_marker = seqs [ilit ''Question'', Star wsp, chr 35, Star wsp, Plus dig]"

text \<open>\<open>^[A-F][\.\)]\s\<close>, matched without \<open>re.IGNORECASE\<close>.\<close>

definition option_start :: re where
  "option_start = seqs [Bol, Cls (\<lambda>c. 65 \<le> c \<and> c \<le> 70), one_of [46, 41], wsp]"

definition topic_header :: re where
  "topic_header = seqs [Bol, ilit ''Topic'', Plus wsp, Plus dig]"

definition user_timestamp_start :: re where
  "user_timestamp_start =
     seqs [Bol, Plus wrd, Plus wsp, Plus dig, Plus wsp, Grp 1 units_mwd, Plus wsp, ilit ''ago'']"

definition case_study_indicators :: "re list" where
  "case_study_indicators =
    [seqs [WordB, Plus wrd, Plus wsp, ilit ''is'', Plus wsp, ilit ''a'', Plus wsp,
           Opt (Grp 1 (seqs [ilit ''web-based'', Plus wsp])),
           Grp 2 (alts [ilit ''company'', ilit ''organization'', ilit ''platform''])],
     seqs [ilit ''For'', Plus wsp, ilit ''this'', Plus wsp, ilit ''question,'', Plus wsp,
           ilit ''refer'', Plus wsp, ilit ''to'', Plus wsp, ilit ''the'', Plus wsp, Plus wrd,
           Plus wsp, ilit ''case'', Plus wsp, ilit ''study''],
     seqs [Plus wrd, Plus wsp,
           Grp 1 (alts [ilit ''provides'', ilit ''offers'', ilit ''operates'', ilit ''runs''])],
     seqs [ilit ''case'', Plus wsp, ilit ''study''],
     ilit ''scenario'',
     seqs [ilit ''company'', Plus wsp, ilit ''background'']]"

text \<open>\<open>Question Set|Topic \d+\<close>, searched without \<open>re.IGNORECASE\<close>.\<close>

definition question_set_or_topic :: re where
  "question_set_or_topic = alts [lit ''Question Set'', seqs [lit ''Topic '', Plus dig]]"

text \<open>
  The table \<open>ocr_fixes\<close> of \<open>_extract_question_description\<close>, in the order of the
  dictionary; each pattern is substituted under \<open>re.IGNORECASE\<close>. Code point 34 is the
  double quote, 94 the caret.
\<close>

definition description_ocr_fixes :: "(re \<times> ustr) list" where
  "description_ocr_fixes =
    [(ilit ''ConKgure'', u ''Configure''),
     (ilit ''ReconKgure'', u ''Reconfigure''),
     (ilit ''traOc'', u ''traffic''),
     (seqs [ilit ''Profess'', chr 34, ilit ''onal''], u ''Professional''),
     (seqs [ilit ''solu'', chr 34, ilit ''on''], u ''solution''),
     (seqs [ilit ''applica'', chr 34, ilit ''on''], u ''application''),
     (seqs [ilit ''ques'', chr 34, ilit ''on''], u ''question''),
     (seqs [ilit ''computa'', chr 34, ilit ''on''], u ''computation''),
     (seqs [ilit ''authen'', chr 34, ilit ''cation''], u ''authentication''),
     (seqs [ilit ''informa'', chr 34, ilit ''on''], u ''information''),
     (seqs [ilit ''migra'', chr 34, ilit ''on''], u ''migration''),
     (seqs [ilit ''opera'', chr 34, ilit ''ons''], u ''operations''),
     (seqs [ilit ''Data'', chr 94, ilit ''ow''], u ''Dataflow''),
     (seqs [ilit ''Data'', chr 34, ilit ''ow''], u ''Dataflow''),
     (seqs [chr 94, ilit ''at'', Plus wsp, ilit ''Kles''], u ''flat files''),
     (ilit ''modiKed'', u ''modified''),
     (ilit ''deKne'', u ''define''),
     (ilit ''Knd'', u ''find''),
     (ilit ''KreVox'', u ''Firefox''),
     (seqs [ilit ''ll'', Plus wsp, iplural ''month'', Plus wsp, ilit ''ago''], []),
     (seqs [Bol, Star wsp, Plus wrd, Plus wsp, Plus dig, Plus wsp, Grp 1 units_mwd,
            Opt (chr 44), Star wsp, Star dig, Star wsp,
            Opt (Grp 2 (alts [iplural ''week'', iplural ''day''])), Plus wsp, ilit ''ago'',
            Star wsp], [])]"

text \<open>\<open>for pattern, replacement in ocr_fixes.items(): s = re.sub(pattern, replacement, s)\<close>.\<close>

definition apply_fixes :: "(re \<times> ustr) list \<Rightarrow> ustr \<Rightarrow> ustr" where
  "apply_fixes fixes s = foldl (\<lambda>acc fix. re_sub (fst fix) (\<lambda>m. snd fix) acc) s fixes"

text \<open>
  The loop over the lines of \<open>_extract_question_description\<close>. Its state is
  \<open>found_question_marker\<close>, \<open>question_lines\<close> and \<open>intro_lines\<close>. One round of the body
  either goes on with the next line (\<open>Continue\<close>, also for the source's \<open>continue\<close>) or
  leaves the loop (\<open>Break\<close>).
\<close>

datatype 'a loop = Continue 'a | Break 'a

type_synonym description_state = "bool \<times> ustr list \<times> ustr list"

definition description_step :: "ustr \<Rightarrow> description_state \<Rightarrow> description_state loop" where
  "description_step line0 st =
     (let line = strip line0;
          found_question_marker = fst st;
          question_lines = fst (snd st);
          intro_lines = snd (snd st)
      in
      if line = [] then Continue st
      else if is_community_comment line then Continue st
      else if found header_footer line then Continue st
      else if found question_marker line then Continue (True, question_lines, intro_lines)
      else if found_question_marker then
        (if re_match option_start line \<noteq> None then Break st
         else if is_community_comment line then Continue st
         else Continue (found_question_marker, question_lines @ [line], intro_lines))
      else if \<not> found topic_header line \<and> \<not> found user_timestamp_start line \<and>
              length line > 20
        then (let is_case_study_content =
                    list_ex (\<lambda>pattern. found pattern line) case_study_indicators
              in if is_case_study_content \<or> length line > 30
                 then Continue (found_question_marker, question_lines, intro_lines @ [line])
                 else Continue st)
      else Continue st)"

fun description_loop :: "ustr list \<Rightarrow> description_state \<Rightarrow> description_state" where
  "description_loop [] st = st"
| "description_loop (line # ls) st =
     (case description_step line st of
        Continue st' \<Rightarrow> description_loop ls st'
      | Break st' \<Rightarrow> st')"

text \<open>\<open>xs[-5:]\<close>.\<close>

definition last5 :: "'a list \<Rightarrow> 'a list" where
  "last5 xs = drop (length xs - 5) xs"

definition extract_question_description :: "ustr \<Rightarrow> ustr" where
  "extract_question_description s =
     (let processed_text = replace [92, 110] [10] s;
          st = description_loop (split_nl processed_text) (False, [], []);
          question_lines = fst (snd st);
          intro_lines = snd (snd st);
          meaningful_intro =
            filter (\<lambda>intro_line. length intro_line > 20 \<and> \<not> found question_set_or_topic intro_line)
              (last5 intro_lines);
          all_content = meaningful_intro @ question_lines;
          description = strip (join [32] all_content);
          description = re_sub (Plus wsp) (\<lambda>m. [32]) description
      in apply_fixes description_ocr_fixes description)"

section \<open>Answer options\<close>

text \<open>\<open>^([A-F])[\.\)]\s*(.+)\<close> under \<open>re.IGNORECASE\<close>.\<close>

definition option_line :: re where
  "option_line =
     seqs [Bol, Grp 1 (icls (\<lambda>c. 65 \<le> c \<and> c \<le> 70)), one_of [46, 41], Star wsp,
           Grp 2 (Plus dot)]"

definition vote_phrasing :: re where
  "vote_phrasing =
     Grp 1 (alts [ilit ''is the answer'', ilit ''upvoted'', ilit ''months ago'',
                  ilit ''weeks ago'', ilit ''days ago'', ilit ''Selected Answer''])"

text \<open>\<open>[~/\\.]\<close>: tilde, slash, backslash, full stop.\<close>

definition path_char :: re where
  "path_char = one_of [126, 47, 92, 46]"

definition option_ocr_fixes :: "(re \<times> ustr) list" where
  "option_ocr_fixes =
    [(ilit ''ConKgure'', u ''Configure''),
     (ilit ''ReconKgure'', u ''Reconfigure''),
     (ilit ''traOc'', u ''traffic''),
     (seqs [ilit ''solu'', chr 34, ilit ''on''], u ''solution''),
     (seqs [ilit ''applica'', chr 34, ilit ''on''], u ''application''),
     (seqs [ilit ''ques'', chr 34, ilit ''on''], u ''question'')]"

text \<open>\<open>len(d[k])\<close> for a key that is present.\<close>

definition len_at :: "(ustr \<times> ustr) list \<Rightarrow> ustr \<Rightarrow> nat" where
  "len_at d k = (case map_of d k of Some v \<Rightarrow> length v | None \<Rightarrow> 0)"

text \<open>
  One round of the loop of \<open>_extract_answer_options\<close>: the options after the line,
  unchanged where the source goes on to the next line without adding one.
\<close>

definition extract_option_step :: "ustr \<Rightarrow> (ustr \<times> ustr) list \<Rightarrow> (ustr \<times> ustr) list" where
  "extract_option_step line0 opts =
     (let line = strip line0 in
      if line = [] then opts
      else
        (case re_match option_line line of
           None \<Rightarrow> opts
         | Some m \<Rightarrow>
             (let option_letter = upper (group_str m 1);
                  option_text = strip (group_str m 2)
              in
              if found vote_phrasing option_text then opts
              else if length option_text < 2 \<or>
                      (length option_text < 5 \<and> \<not> found path_char option_text) then opts
              else
                (let option_text = apply_fixes option_ocr_fixes option_text in
                 if map_of opts option_letter = None \<or>
                    length option_text > len_at opts option_letter
                 then AList.update option_letter option_text opts
                 else opts))))"

definition extract_answer_options :: "ustr \<Rightarrow> (ustr \<times> ustr) list" where
  "extract_answer_options s = foldl (\<lambda>opts line. extract_option_step line opts) [] (split_nl s)"

section \<open>Community responses\<close>

text \<open>The dictionary \<open>community_data\<close> of \<open>_parse_community_responses\<close>, by its four keys.\<close>

record community_data =
  data_community_answer :: ustr
  data_highly_voted :: ustr
  data_most_recent :: ustr
  data_latest_date :: ustr

text \<open>\<open>[A-F](?=\s|$|\.)\<close> and the same anchored at the start, matched as written.\<close>

definition answer_letter :: re where
  "answer_letter = Seq (Cls (\<lambda>c. 65 \<le> c \<and> c \<le> 70)) (Look (alts [wsp, Eol, chr 46]))"

definition answer_letter_at_start :: re where
  "answer_letter_at_start = Seq Bol answer_letter"

definition date_patterns :: "re list" where
  "date_patterns =
    [Grp 1 (seqs [rep_range 1 2 dig, Plus wsp,
                  alts [plural ''day'', plural ''week'', plural ''month'', plural ''year''],
                  Plus wsp, lit ''ago'']),
     Grp 1 (seqs [rep_range 1 2 dig, chr 47, rep_range 1 2 dig, chr 47, rep_range 2 4 dig]),
     Grp 1 (seqs [rep 4 dig, chr 45, rep 2 dig, chr 45, rep 2 dig])]"

text \<open>
  The answer of one indicator line: the first letter the pattern finds in the
  upper-cased line, else a letter at the start of the next line, else nothing new.
\<close>

definition find_answer :: "ustr \<Rightarrow> ustr option \<Rightarrow> ustr option" where
  "find_answer line next_line0 =
     (case re_search answer_letter (upper line) of
        Some m \<Rightarrow> Some (matched m)
      | None \<Rightarrow>
          (case next_line0 of
             None \<Rightarrow> None
           | Some n \<Rightarrow>
               (case re_search answer_letter_at_start (upper (strip n)) of
                  Some m \<Rightarrow> Some (matched m)
                | None \<Rightarrow> None)))"

text \<open>
  One round of the loop of \<open>_parse_community_responses\<close>; \<open>next_line0\<close> is
  \<open>lines[i + 1]\<close> where \<open>i + 1 < len(lines)\<close>.
\<close>

definition community_step :: "ustr \<Rightarrow> ustr option \<Rightarrow> community_data \<Rightarrow> community_data" where
  "community_step line0 next_line0 d =
     (let line = lower (strip line0);
          d =
            (if contains (u ''selected answer'') line \<or> contains (u ''correct answer'') line
             then (case find_answer line next_line0 of
                     Some a \<Rightarrow> d\<lparr>data_community_answer := a\<rparr> | None \<Rightarrow> d)
             else if contains (u ''highly voted'') line
             then (case find_answer line next_line0 of
                     Some a \<Rightarrow> d\<lparr>data_highly_voted := a\<rparr> | None \<Rightarrow> d)
             else if contains (u ''most recent'') line
             then (case find_answer line next_line0 of
                     Some a \<Rightarrow> d\<lparr>data_most_recent := a\<rparr> | None \<Rightarrow> d)
             else d)
      in (case first_group1 date_patterns line of
            Some g \<Rightarrow> d\<lparr>data_latest_date := g\<rparr>
          | None \<Rightarrow> d))"

fun community_loop :: "ustr list \<Rightarrow> community_data \<Rightarrow> community_data" where
  "community_loop [] d = d"
| "community_loop (line # ls) d =
     community_loop ls (community_step line (case ls of [] \<Rightarrow> None | n # _ \<Rightarrow> Some n) d)"

definition parse_community_responses :: "ustr \<Rightarrow> community_data" where
  "parse_community_responses s =
     community_loop (split_nl s)
       \<lparr>data_community_answer = [], data_highly_voted = [], data_most_recent = [],
        data_latest_date = []\<rparr>"

section \<open>Confidence\<close>

text \<open>
  \<open>_calculate_confidence\<close>, the rubric in the source's order; every \<open>score += w\<close> is a
  float addition of the literal \<open>w\<close>.
\<close>

definition calculate_confidence :: "question \<Rightarrow> rat" where
  "calculate_confidence q =
     (let score = 0;
          score =
            (if description q \<noteq> [] then
               (if length (description q) \<ge> 50 then fadd score (fl (4 / 10))
                else if length (description q) \<ge> 20 then fadd score (fl (2 / 10))
                else score)
             else score);
          score =
            (if length (options q) \<ge> 4 then fadd score (fl (3 / 10))
             else if length (options q) \<ge> 2 then fadd score (fl (15 / 100))
             else score);
          community_answers = [community_answer q, highly_voted_answer q, most_recent_answer q];
          valid_answers =
            filter (\<lambda>ans. ans \<noteq> [] \<and> contains ans (u ''ABCDEF'')) community_answers;
          score =
            (if length valid_answers \<ge> 2 then fadd score (fl (2 / 10))
             else if length valid_answers \<ge> 1 then fadd score (fl (1 / 10))
             else score);
          score =
            (if original_number q \<noteq> [] \<and> topic q \<noteq> [] then fadd score (fl (1 / 10))
             else if original_number q \<noteq> [] \<or> topic q \<noteq> [] then fadd score (fl (5 / 100))
             else score)
      in min score 1)"

section \<open>Parsing a block, and a run over the boundaries\<close>

text \<open>
  \<open>parse_question_structure\<close>. The parser object is passed in and returned; \<open>None\<close> is
  the source's \<open>None\<close>. The guard comes before the \<open>try\<close>. In the body the one step that
  can raise is the f-string of the unique id, on a page number or a counter of more
  than 4300 digits; the \<open>except\<close> branch then returns \<open>None\<close>, after the counter was
  stepped.
\<close>

definition parse_question_structure ::
    "config \<Rightarrow> parser \<Rightarrow> ustr \<Rightarrow> int \<Rightarrow> ustr \<Rightarrow> ustr \<Rightarrow> question option \<times> parser" where
  "parse_question_structure cfg self text_block page_no source_file pdf_path =
     (if text_block = [] \<or> int (length (strip text_block)) < minimum_question_length cfg
      then (None, self)
      else
        (let q = new_question\<lparr>page_number := page_no, source := source_file,
                   raw_content := text_block, source_pdf_path := pdf_path\<rparr>;
             question_number = (case extract_question_number text_block of
                                  Some n \<Rightarrow> n | None \<Rightarrow> []);
             self = (if question_number \<noteq> [] then self
                     else self\<lparr>question_counter := question_counter self + 1\<rparr>);
             named =
               (case py_str page_no of
                  None \<Rightarrow> None
                | Some p \<Rightarrow>
                    (if question_number \<noteq> []
                     then Some (q\<lparr>original_number := question_number,
                                  unique_id := u ''Q'' @ p @ u ''_'' @ question_number\<rparr>)
                     else (case py_str (int (question_counter self)) of
                             None \<Rightarrow> None
                           | Some c \<Rightarrow> Some (q\<lparr>unique_id := u ''Q'' @ p @ u ''_'' @ c\<rparr>))))
         in case named of
              None \<Rightarrow> (None, self)
            | Some q \<Rightarrow>
                (let q = q\<lparr>topic := extract_topic text_block\<rparr>;
                     q = q\<lparr>description := extract_question_description text_block\<rparr>;
                     q = q\<lparr>options := extract_answer_options text_block\<rparr>;
                     community_data = parse_community_responses text_block;
                     q = q\<lparr>community_answer := data_community_answer community_data,
                            highly_voted_answer := data_highly_voted community_data,
                            most_recent_answer := data_most_recent community_data,
                            latest_date := data_latest_date community_data\<rparr>;
                     extracted_comments =
                       snd (separate_community_comments text_block (unique_id q) page_no
                              source_file);
                     self = self\<lparr>community_comments :=
                              community_comments self @ extracted_comments\<rparr>;
                     q = q\<lparr>has_claude_answer := (claude_answer q \<noteq> [])\<rparr>;
                     q = q\<lparr>confidence_score := calculate_confidence q\<rparr>
                 in (Some q, self))))"

text \<open>
  A boundary as \<open>identify_question_boundaries\<close> builds it; \<open>full_content\<close> is optional,
  as \<open>parse_questions_from_pages\<close> reads it with \<open>.get\<close> and a default.
\<close>

record boundary =
  start_page :: int
  start_line :: nat
  question_header :: ustr
  content_lines :: "ustr list"
  source_file :: ustr
  full_content :: "ustr option"

text \<open>
  \<open>parse_questions_from_pages\<close>: a question is kept when it was parsed and its
  confidence reaches the threshold. When no question was parsed, the warning formats
  the page number of the boundary; on a page number of more than 4300 digits this
  raises, and so does the same f-string in the \<open>except\<close> branch, so that the call raises:
  the value \<open>None\<close>.
\<close>

fun parse_questions_loop ::
    "config \<Rightarrow> boundary list \<Rightarrow> parser \<Rightarrow> question list \<Rightarrow>
       (question list \<times> parser) option" where
  "parse_questions_loop cfg [] self questions = Some (questions, self)"
| "parse_questions_loop cfg (b # bs) self questions =
     (let question_text = (case full_content b of
                             Some t \<Rightarrow> t | None \<Rightarrow> join [10] (content_lines b));
          r = parse_question_structure cfg self question_text (start_page b) (source_file b) []
      in case fst r of
           Some q \<Rightarrow>
             (if confidence_score q \<ge> minimum_confidence_score cfg
              then parse_questions_loop cfg bs (snd r) (questions @ [q])
              else parse_questions_loop cfg bs (snd r) questions)
         | None \<Rightarrow>
             (case py_str (start_page b) of
                Some p \<Rightarrow> parse_questions_loop cfg bs (snd r) questions
              | None \<Rightarrow> None))"

definition parse_questions_from_pages ::
    "config \<Rightarrow> parser \<Rightarrow> boundary list \<Rightarrow> (question list \<times> parser) option" where
  "parse_questions_from_pages cfg self boundaries = parse_questions_loop cfg boundaries self []"

section \<open>Duplicates\<close>

text \<open>\<open>_calculate_similarity\<close>: the Jaccard index of the two sets of lower-cased words.\<close>

definition calculate_similarity :: "ustr \<Rightarrow> ustr \<Rightarrow> rat" where
  "calculate_similarity text1 text2 =
     (if text1 = [] \<or> text2 = [] then 0
      else
        (let words1 = set (split_ws (lower text1));
             words2 = set (split_ws (lower text2))
         in if words1 = {} \<or> words2 = {} then 0
            else
              (let intersection = card (words1 \<inter> words2);
                   union = card (words1 \<union> words2)
               in if union > 0 then of_nat intersection / of_nat union else 0)))"

text \<open>
  \<open>identify_duplicates\<close>: every pair \<open>i < j\<close>, in the order of the two loops. The
  quotient the source computes is a float, compared with the literal \<open>0.8\<close>.
\<close>

fun identify_duplicates :: "question list \<Rightarrow> (ustr \<times> ustr \<times> rat) list" where
  "identify_duplicates [] = []"
| "identify_duplicates (q1 # qs) =
     map (\<lambda>q2. (unique_id q1, unique_id q2,
                 fl (calculate_similarity (description q1) (description q2))))
       (filter (\<lambda>q2. fl (calculate_similarity (description q1) (description q2)) > fl (8 / 10)) qs)
     @ identify_duplicates qs"

section \<open>\<open>pdf_processor.py\<close>: cleaning a page and finding the boundaries\<close>

text \<open>
  \<open>PageContent\<close>; its fields \<open>page_number\<close>, \<open>text\<close> and \<open>source_file\<close> are written
  \<open>page_no\<close>, \<open>page_text\<close> and \<open>page_source_file\<close>.
\<close>

record page_content =
  page_no :: int
  page_text :: ustr
  page_source_file :: ustr
  raw_text :: ustr

text \<open>
  \<open>clean_pdf_artifacts\<close>: the substitutions in the source's order. \<open>ignore_elements\<close>
  is read from the configuration and not used.
\<close>

definition clean_pdf_artifacts :: "ustr \<Rightarrow> ustr" where
  "clean_pdf_artifacts s =
     (if s = [] then []
      else
        (let s = re_sub (seqs [lit ''https://www.examtopics.com'', Star (Cls (\<lambda>c. \<not> is_space c))])
                   (\<lambda>m. []) s;
             s = re_sub (seqs [BolM, Plus dig, Star wsp, EolM]) (\<lambda>m. []) s;
             s = re_sub (seqs [ilit ''Page '', Plus dig]) (\<lambda>m. []) s;
             s = re_sub (seqs [chr 10, Star wsp, chr 10, Star wsp, Plus (chr 10)]) (\<lambda>m. [10, 10]) s;
             s = re_sub (at_least 3 (chr 32)) (\<lambda>m. [32, 32]) s;
             s = re_sub (seqs [Grp 1 (Plus wrd), chr 45, Star wsp, chr 10, Star wsp, Grp 2 (Plus wrd)])
                   (\<lambda>m. group_str m 1 @ group_str m 2) s;
             s = re_sub (seqs [chr 13, chr 10]) (\<lambda>m. [10]) s;
             s = re_sub (chr 13) (\<lambda>m. [10]) s;
             s = re_sub (seqs [chr 10, Cls is_alpha, chr 10]) (\<lambda>m. [10]) s
         in strip s))"

text \<open>The two noise patterns of the look-back in \<open>identify_question_boundaries\<close>.\<close>

definition context_noise :: re where
  "context_noise =
     alts [ilit ''ExamTopics'',
           seqs [ilit ''Profess'', Star dot, ilit ''onal''],
           ilit ''Selected Answer:'',
           seqs [Bol, Plus dig, Star wsp, Eol],
           seqs [ilit ''Page '', Plus dig]]"

text \<open>
  The lines before line \<open>i\<close>: \<open>range(max(0, i - 20), i)\<close>, stripped, the substantial ones
  that are no header and no user timestamp.
\<close>

definition context_before :: "ustr list \<Rightarrow> nat \<Rightarrow> ustr list" where
  "context_before text_lines i =
     filter (\<lambda>ctx_line. ctx_line \<noteq> [] \<and> length ctx_line > 15 \<and>
                \<not> found context_noise ctx_line \<and> \<not> found user_timestamp_start ctx_line)
       (map strip (drop (i - 20) (take i text_lines)))"

text \<open>
  The lines after line \<open>i\<close>, given as \<open>text_lines[i + 1 : min(len(text_lines), i + 50)]\<close>:
  the non-empty ones, stripped, up to the next question marker.
\<close>

fun lines_after :: "ustr list \<Rightarrow> ustr list" where
  "lines_after [] = []"
| "lines_after (l # ls) =
     (let next_line = strip l in
      if next_line \<noteq> [] then
        (if found question_marker next_line then [] else next_line # lines_after ls)
      else lines_after ls)"

definition boundary_at :: "page_content \<Rightarrow> ustr list \<Rightarrow> nat \<Rightarrow> boundary" where
  "boundary_at page text_lines i =
     (let line_stripped = strip (text_lines ! i);
          context_lines = context_before text_lines i @ [line_stripped] @
                          lines_after (take 49 (drop (i + 1) text_lines))
      in \<lparr>start_page = page_no page, start_line = i, question_header = line_stripped,
          content_lines = context_lines, source_file = page_source_file page,
          full_content = Some (join [10] context_lines)\<rparr>)"

text \<open>
  The loops of \<open>identify_question_boundaries\<close>; the state is the list \<open>questions\<close> and
  \<open>current_question\<close>.
\<close>

type_synonym boundary_state = "boundary list \<times> boundary option"

fun scan_lines :: "page_content \<Rightarrow> ustr list \<Rightarrow> nat list \<Rightarrow> boundary_state \<Rightarrow> boundary_state" where
  "scan_lines page text_lines [] st = st"
| "scan_lines page text_lines (i # rest) st =
     (if found question_marker (strip (text_lines ! i))
      then scan_lines page text_lines rest
             ((case snd st of Some c \<Rightarrow> fst st @ [c] | None \<Rightarrow> fst st),
              Some (boundary_at page text_lines i))
      else scan_lines page text_lines rest st)"

fun scan_pages :: "page_content list \<Rightarrow> boundary_state \<Rightarrow> boundary_state" where
  "scan_pages [] st = st"
| "scan_pages (page # pages) st =
     (let text_lines = split_nl (page_text page)
      in scan_pages pages (scan_lines page text_lines [0..<length text_lines] st))"

definition identify_question_boundaries :: "page_content list \<Rightarrow> boundary list" where
  "identify_question_boundaries pages =
     (let st = scan_pages pages ([], None)
      in case snd st of Some c \<Rightarrow> fst st @ [c] | None \<Rightarrow> fst st)"

section \<open>\<open>robust_question_parser.py\<close>: cleaning the glyphs\<close>

text \<open>
  \<open>_clean_unicode_artifacts\<close>: U+F147, U+F007, U+F0C9, U+2588, U+2590 and U+2591 are
  deleted, then the private-use range U+F000-U+F8FF, then every run of whitespace
  becomes one space and the ends are stripped.
\<close>

definition clean_unicode_artifacts :: "ustr \<Rightarrow> ustr" where
  "clean_unicode_artifacts s =
     (if s = [] then s
      else
        (let s = replace [61641] [] (replace [61447] [] (replace [61767] [] s));
             s = replace [9617] [] (replace [9616] [] (replace [9608] [] s));
             s = re_sub (Cls (\<lambda>c. 61440 \<le> c \<and> c \<le> 63743)) (\<lambda>m. []) s;
             s = re_sub (Plus wsp) (\<lambda>m. [32]) s
         in strip s))"


section \<open>Inputs of the worked examples\<close>

text \<open>A block of 39 characters with a question marker, a description and two options.\<close>

definition short_block :: ustr where
  "short_block = join [10] [u ''Question #1'', u ''Is it so?'', u ''A. maybe'', u ''B. never'']"

text \<open>
  A question with a description of 51 characters and three options, no community
  answer, no number and no topic.
\<close>

definition three_option_question :: question where
  "three_option_question =
     new_question\<lparr>description := u ''Which service stores objects for a web application?'',
       options := [(u ''A'', u ''Compute Engine''), (u ''B'', u ''Cloud Storage''),
                   (u ''C'', u ''BigQuery'')]\<rparr>"

text \<open>A community line with a leading space, and a line that is only a link.\<close>

definition indented_vote_line :: ustr where
  "indented_vote_line = u '' Highly Voted''"

definition link_line :: ustr where
  "link_line = u ''https://cloud.google.com/storage''"

text \<open>A block of three lines: a line of the question and two community lines.\<close>

definition mixed_block :: ustr where
  "mixed_block = join [10] [u ''What is it?'', u '' Highly Voted'', u ''https://g.co/x'']"

section \<open>Properties\<close>

subsection \<open>Short blocks are rejected\<close>

text \<open>
  Claim C10. \<open>parse_question_structure\<close> returns \<open>None\<close> for every block whose stripped
  length is below the configured minimum question length, whatever the block holds,
  and leaves the parser as it was; with the default configuration the minimum is 50.
\<close>

theorem parse_rejects_short_block:
  "(int (length (strip text_block)) < minimum_question_length cfg \<longrightarrow>
      parse_question_structure cfg self text_block pg src pdf = (None, self)) \<and>
   (length (strip text_block) < 50 \<longrightarrow>
      parse_question_structure get_default_config self text_block pg src pdf = (None, self))"
  by (simp add: parse_question_structure_def get_default_config_def)

text \<open>
  The block \<open>short_block\<close> has a marker with the number 1, the description
  \<open>Is it so?\<close> and the options A and B, and is rejected for its 39 characters.
\<close>

lemma short_block_parts:
  "length (strip short_block) = 39 \<and>
   extract_question_number short_block = Some (u ''1'') \<and>
   extract_question_description short_block = u ''Is it so?'' \<and>
   map fst (extract_answer_options short_block) = [u ''A'', u ''B'']"
  unfolding short_block_def by code_simp

theorem parse_rejects_short_block_witness:
  "length (strip short_block) = 39 \<and>
   extract_question_number short_block = Some (u ''1'') \<and>
   extract_question_description short_block = u ''Is it so?'' \<and>
   map fst (extract_answer_options short_block) = [u ''A'', u ''B''] \<and>
   parse_question_structure get_default_config new_parser short_block 1 (u ''a.pdf'') [] =
     (None, new_parser)"
proof -
  have "length (strip short_block) < 50"
    using short_block_parts by simp
  then have "parse_question_structure get_default_config new_parser short_block 1 (u ''a.pdf'') [] =
      (None, new_parser)"
    using parse_rejects_short_block [of short_block get_default_config new_parser 1 "u ''a.pdf''" "[]"]
    by blast
  then show ?thesis using short_block_parts by blast
qed

subsection \<open>Similarity of descriptions\<close>

lemma split_ws_acc_Nil: "split_ws_acc w s = [] \<Longrightarrow> w = []"
  by (induction w s rule: split_ws_acc.induct) (auto split: if_splits)

text \<open>
  Claim C5. The similarity is symmetric. A description compared with itself gives 1
  when it holds at least one word, and 0 when it is empty or only whitespace.
\<close>

theorem similarity_symmetric_self:
  "calculate_similarity t1 t2 = calculate_similarity t2 t1 \<and>
   calculate_similarity t t = (if split_ws (lower t) = [] then 0 else 1)"
proof -
  have sym: "calculate_similarity t1 t2 = calculate_similarity t2 t1"
    by (simp add: calculate_similarity_def Let_def Int_commute Un_commute disj_commute)
  have self: "calculate_similarity t t = (if split_ws (lower t) = [] then 0 else 1)"
  proof (cases "split_ws (lower t) = []")
    case True
    then show ?thesis by (simp add: calculate_similarity_def Let_def)
  next
    case False
    then have ne: "t \<noteq> []" by (auto simp: split_ws_def lower_def)
    from False have "card (set (split_ws (lower t))) > 0"
      by (simp add: card_gt_0_iff)
    with False ne show ?thesis by (simp add: calculate_similarity_def Let_def)
  qed
  from sym self show ?thesis by simp
qed

theorem similarity_symmetric_self_witness:
  "calculate_similarity (u ''a b c'') (u ''A c d'') = 1 / 2 \<and>
   calculate_similarity (u ''A c d'') (u ''a b c'') = 1 / 2 \<and>
   calculate_similarity (u ''a b c'') (u ''a b c'') = 1"
proof -
  have v: "calculate_similarity (u ''a b c'') (u ''A c d'') = 1 / 2"
    by code_simp
  have w: "split_ws (lower (u ''a b c'')) \<noteq> []"
    by code_simp
  show ?thesis
    using similarity_symmetric_self [of "u ''a b c''" "u ''A c d''" "u ''a b c''"] v w
    by simp
qed

text \<open>The description of a fresh \<open>Question()\<close> is empty, and its similarity to itself is 0.\<close>

theorem similarity_self_empty_counterexample:
  "calculate_similarity (description new_question) (description new_question) = 0 \<and>
   calculate_similarity (description new_question) (description new_question) \<noteq> 1"
  by (simp add: calculate_similarity_def new_question_def)

subsection \<open>Confidence and a fourth option\<close>

lemma length_update_new:
  "k \<notin> fst ` set al \<Longrightarrow> length (AList.update k v al) = Suc (length al)"
  by (induction al) auto

text \<open>
  The floats of the rubric and their sums, as the rationals they denote: \<open>0.4 + 0.15\<close> is
  the float \<open>0.55\<close> and \<open>0.4 + 0.3\<close> the float \<open>0.7\<close>; with \<open>0.05\<close> or \<open>0.1\<close> added they give
  \<open>0.6000000000000001\<close>, \<open>0.65\<close>, \<open>0.75\<close> and \<open>0.7999999999999999\<close>.
\<close>

lemma float_0_55: "fl (55 / 100) = 2476979795053773 / 4503599627370496"
  by code_simp

lemma float_0_7: "fl (7 / 10) = 3152519739159347 / 4503599627370496"
  by code_simp

lemma float_0_4: "fl (4 / 10) = 3602879701896397 / 9007199254740992"
  by code_simp

lemma score_three_options:
  "fadd (fadd 0 (fl (4 / 10))) (fl (15 / 100)) = 2476979795053773 / 4503599627370496"
  by code_simp

lemma score_four_options:
  "fadd (fadd 0 (fl (4 / 10))) (fl (3 / 10)) = 3152519739159347 / 4503599627370496"
  by code_simp

lemma score_three_options_one:
  "fadd (fadd (fadd 0 (fl (4 / 10))) (fl (15 / 100))) (fl (5 / 100)) =
     1351079888211149 / 2251799813685248"
  by code_simp

lemma score_three_options_both:
  "fadd (fadd (fadd 0 (fl (4 / 10))) (fl (15 / 100))) (fl (1 / 10)) =
     5854679515581645 / 9007199254740992"
  by code_simp

lemma score_four_options_one:
  "fadd (fadd (fadd 0 (fl (4 / 10))) (fl (3 / 10))) (fl (5 / 100)) = 3 / 4"
  by code_simp

lemma score_four_options_both:
  "fadd (fadd (fadd 0 (fl (4 / 10))) (fl (3 / 10))) (fl (1 / 10)) =
     7205759403792793 / 9007199254740992"
  by code_simp

lemmas score_values = float_0_55 float_0_7 score_three_options score_four_options
  score_three_options_one score_three_options_both score_four_options_one
  score_four_options_both

text \<open>
  Claim C4. A question with a description of at least 50 characters, three options and
  no community answer scores at least the float 0.55 (0.4 for the description and 0.15
  for two or three options). A fourth option under a new letter gives a higher score,
  at least the float 0.7. With neither number nor topic the score is the float 0.55
  before and the float 0.7 after.
\<close>

theorem confidence_fourth_option:
  assumes "length (description q) \<ge> 50" and "length (options q) = 3"
    and "community_answer q = []" and "highly_voted_answer q = []"
    and "most_recent_answer q = []" and "map_of (options q) k = None"
  shows "fl (55 / 100) \<le> calculate_confidence q \<and>
         fl (7 / 10) \<le> calculate_confidence (q\<lparr>options := AList.update k v (options q)\<rparr>) \<and>
         calculate_confidence q <
           calculate_confidence (q\<lparr>options := AList.update k v (options q)\<rparr>) \<and>
         (original_number q = [] \<and> topic q = [] \<longrightarrow>
            calculate_confidence q = fl (55 / 100) \<and>
            calculate_confidence (q\<lparr>options := AList.update k v (options q)\<rparr>) = fl (7 / 10))"
proof -
  from assms(6) have "k \<notin> fst ` set (options q)"
    by (simp add: map_of_eq_None_iff)
  then have len: "length (AList.update k v (options q)) = 4"
    using assms(2) by (simp add: length_update_new)
  from assms(1) have ne: "description q \<noteq> []" by auto
  show ?thesis
    using assms(1-5) len ne score_values
    by (cases "original_number q = []"; cases "topic q = []")
       (simp_all add: calculate_confidence_def Let_def)
qed

lemma three_option_question_parts:
  "length (description three_option_question) = 51 \<and>
   length (options three_option_question) = 3 \<and>
   community_answer three_option_question = [] \<and>
   highly_voted_answer three_option_question = [] \<and>
   most_recent_answer three_option_question = [] \<and>
   original_number three_option_question = [] \<and>
   topic three_option_question = [] \<and>
   map_of (options three_option_question) (u ''D'') = None"
  unfolding three_option_question_def by code_simp

theorem confidence_fourth_option_witness:
  "calculate_confidence three_option_question = fl (55 / 100) \<and>
   calculate_confidence
     (three_option_question\<lparr>options :=
        AList.update (u ''D'') (u ''Pub/Sub'') (options three_option_question)\<rparr>) = fl (7 / 10) \<and>
   calculate_confidence three_option_question <
     calculate_confidence
       (three_option_question\<lparr>options :=
          AList.update (u ''D'') (u ''Pub/Sub'') (options three_option_question)\<rparr>)"
  using confidence_fourth_option [of three_option_question "u ''D''" "u ''Pub/Sub''"]
    three_option_question_parts
  by simp

lemma three_option_question_score:
  "calculate_confidence three_option_question = fl (55 / 100) \<and>
   calculate_confidence three_option_question \<noteq> fl (4 / 10)"
  unfolding three_option_question_def by code_simp

text \<open>With three options the score before the fourth is added is 0.55, not 0.4.\<close>

theorem confidence_three_options_counterexample:
  "length (description three_option_question) = 51 \<and>
   length (options three_option_question) = 3 \<and>
   community_answer three_option_question = [] \<and>
   highly_voted_answer three_option_question = [] \<and>
   most_recent_answer three_option_question = [] \<and>
   calculate_confidence three_option_question = fl (55 / 100) \<and>
   calculate_confidence three_option_question \<noteq> fl (4 / 10)"
  using three_option_question_parts three_option_question_score by simp

subsection \<open>Separating the community lines\<close>

lemma separate_lines_fst:
  "fst (separate_lines ls qid pg src) = filter (\<lambda>l. \<not> is_community_comment l) ls"
  by (induction ls) (auto simp: Let_def split: option.splits)

lemma separate_lines_snd:
  "snd (separate_lines ls qid pg src) =
     List.map_filter (\<lambda>l. extract_community_comment l qid pg src)
       (filter is_community_comment ls)"
  by (induction ls) (auto simp: Let_def map_filter_simps split: option.splits)

lemma extract_None:
  "(extract_community_comment l qid pg src = None) = vote_count_too_long l"
  by (simp add: extract_community_comment_def vote_count_too_long_def py_int_def Let_def
        split: option.splits)

lemma content_extract:
  "extract_community_comment l qid pg src = Some c \<Longrightarrow> content c = strip l"
  by (auto simp: extract_community_comment_def py_int_def Let_def
        split: option.splits if_splits)

lemma content_map_filter:
  "map content (List.map_filter (\<lambda>l. extract_community_comment l qid pg src) ls) =
     map strip (filter (\<lambda>l. \<not> vote_count_too_long l) ls)"
proof (induction ls)
  case Nil
  then show ?case by (simp add: map_filter_simps)
next
  case (Cons l ls)
  show ?case
  proof (cases "extract_community_comment l qid pg src")
    case None
    then have "vote_count_too_long l" by (simp add: extract_None)
    with None Cons show ?thesis by (simp add: map_filter_simps)
  next
    case (Some c)
    then have "\<not> vote_count_too_long l" using extract_None [of l qid pg src] by simp
    with Some Cons content_extract [OF Some] show ?thesis by (simp add: map_filter_simps)
  qed
qed

text \<open>
  Claim C2. The clean text is the lines that are no community lines, joined in their
  order. The comments are what \<open>_extract_community_comment\<close> gives for the community
  lines, in their order; it gives no comment exactly for a line whose vote count has
  more than 4300 digits, and such a community line is in neither result. The content
  of a comment is its line stripped of the whitespace at its ends. A community line in
  which none of the patterns for user name, vote type and vote count is found gives a
  comment with the stripped line as content and the other extracted fields empty.
\<close>

theorem separate_partitions_lines:
  "fst (separate_community_comments t qid pg src) =
     join [10] (filter (\<lambda>l. \<not> is_community_comment l) (split_nl t)) \<and>
   snd (separate_community_comments t qid pg src) =
     List.map_filter (\<lambda>l. extract_community_comment l qid pg src)
       (filter is_community_comment (split_nl t)) \<and>
   map content (snd (separate_community_comments t qid pg src)) =
     map strip (filter (\<lambda>l. is_community_comment l \<and> \<not> vote_count_too_long l) (split_nl t)) \<and>
   (extract_community_comment l qid pg src = None) = vote_count_too_long l \<and>
   (re_search username_timestamp l = None \<and> \<not> found (ilit ''highly voted'') l \<and>
    \<not> found (ilit ''most recent'') l \<and> \<not> found (ilit ''selected answer'') l \<and>
    re_search upvoted_times l = None \<longrightarrow>
      extract_community_comment l qid pg src =
        Some (new_comment\<lparr>question_id := qid, comment_page := pg, comment_source := src,
                content := strip l\<rparr>))"
proof -
  have clean: "fst (separate_community_comments t qid pg src) =
      join [10] (filter (\<lambda>l. \<not> is_community_comment l) (split_nl t))"
    by (simp add: separate_community_comments_def Let_def separate_lines_fst)
  have records: "snd (separate_community_comments t qid pg src) =
      List.map_filter (\<lambda>l. extract_community_comment l qid pg src)
        (filter is_community_comment (split_nl t))"
    by (simp add: separate_community_comments_def Let_def separate_lines_snd)
  have "filter (\<lambda>l. \<not> vote_count_too_long l) (filter is_community_comment (split_nl t)) =
      filter (\<lambda>l. is_community_comment l \<and> \<not> vote_count_too_long l) (split_nl t)"
    by (simp add: conj_commute)
  then have comments: "map content (snd (separate_community_comments t qid pg src)) =
      map strip (filter (\<lambda>l. is_community_comment l \<and> \<not> vote_count_too_long l) (split_nl t))"
    by (simp only: records content_map_filter)
  have dropped: "(extract_community_comment l qid pg src = None) = vote_count_too_long l"
    by (rule extract_None)
  have sparse: "re_search username_timestamp l = None \<and> \<not> found (ilit ''highly voted'') l \<and>
      \<not> found (ilit ''most recent'') l \<and> \<not> found (ilit ''selected answer'') l \<and>
      re_search upvoted_times l = None \<longrightarrow>
        extract_community_comment l qid pg src =
          Some (new_comment\<lparr>question_id := qid, comment_page := pg, comment_source := src,
                  content := strip l\<rparr>)"
    by (simp add: extract_community_comment_def Let_def)
  from clean records comments dropped sparse show ?thesis by blast
qed

lemma link_line_parts:
  "is_community_comment link_line \<and>
   re_search username_timestamp link_line = None \<and> \<not> found (ilit ''highly voted'') link_line \<and>
   \<not> found (ilit ''most recent'') link_line \<and> \<not> found (ilit ''selected answer'') link_line \<and>
   re_search upvoted_times link_line = None \<and> strip link_line = link_line"
  unfolding link_line_def by code_simp

lemma mixed_block_parts:
  "join [10] (filter (\<lambda>l. \<not> is_community_comment l) (split_nl mixed_block)) = u ''What is it?''"
  "map strip (filter (\<lambda>l. is_community_comment l \<and> \<not> vote_count_too_long l)
     (split_nl mixed_block)) = [u ''Highly Voted'', u ''https://g.co/x'']"
  unfolding mixed_block_def by code_simp+

text \<open>
  The block \<open>mixed_block\<close> is split into its first line and the comments of its two other
  lines; the line \<open>link_line\<close> gives a comment that has only its content.
\<close>

theorem separate_partitions_lines_witness:
  "fst (separate_community_comments mixed_block (u ''Q1_7'') 1 (u ''a.pdf'')) = u ''What is it?'' \<and>
   map content (snd (separate_community_comments mixed_block (u ''Q1_7'') 1 (u ''a.pdf''))) =
     [u ''Highly Voted'', u ''https://g.co/x''] \<and>
   is_community_comment link_line \<and>
   extract_community_comment link_line (u ''Q1_7'') 1 (u ''a.pdf'') =
     Some (new_comment\<lparr>question_id := u ''Q1_7'', comment_page := 1,
             comment_source := u ''a.pdf'', content := link_line\<rparr>)"
proof -
  note parts = separate_partitions_lines [of mixed_block "u ''Q1_7''" 1 "u ''a.pdf''" link_line]
  from parts have clean:
    "fst (separate_community_comments mixed_block (u ''Q1_7'') 1 (u ''a.pdf'')) =
       join [10] (filter (\<lambda>l. \<not> is_community_comment l) (split_nl mixed_block))"
    by (rule conjunct1)
  from parts have comments:
    "map content (snd (separate_community_comments mixed_block (u ''Q1_7'') 1 (u ''a.pdf''))) =
       map strip (filter (\<lambda>l. is_community_comment l \<and> \<not> vote_count_too_long l)
         (split_nl mixed_block))"
    by blast
  from parts link_line_parts have sparse:
    "extract_community_comment link_line (u ''Q1_7'') 1 (u ''a.pdf'') =
       Some (new_comment\<lparr>question_id := u ''Q1_7'', comment_page := 1,
               comment_source := u ''a.pdf'', content := link_line\<rparr>)"
    by simp
  from clean comments sparse link_line_parts mixed_block_parts show ?thesis
    by simp
qed

text \<open>
  The line \<open>indented_vote_line\<close> is a community line; it is not in the clean text, and
  the content of its comment is the line without its leading space.
\<close>

theorem separate_strips_content_counterexample:
  "separate_community_comments indented_vote_line (u ''Q1_7'') 1 (u ''a.pdf'') =
     ([], [new_comment\<lparr>question_id := u ''Q1_7'', comment_page := 1,
              comment_source := u ''a.pdf'', content := u ''Highly Voted'',
              vote_type := u ''Highly Voted''\<rparr>]) \<and>
   u ''Highly Voted'' \<noteq> indented_vote_line"
  unfolding indented_vote_line_def by code_simp

end
